theory Spec2Isabelle
  imports Main
begin

section \<open>Python values the bot computes with\<close>

subsection \<open>Strings\<close>

text \<open>
  \<open>str(n)\<close> of a non-negative integer (Discord identifiers are such): its decimal
  digits. The bot compares \<open>str(user.id)\<close> with the configured admin strings and stores
  \<open>str(member.id)\<close> in the \<open>discord_id\<close> column.
\<close>

definition digit_char :: "nat \<Rightarrow> char" where
  "digit_char d = char_of (48 + d)"

function str_nat :: "nat \<Rightarrow> string" where
  "str_nat n = (if n < 10 then [digit_char n] else str_nat (n div 10) @ [digit_char (n mod 10)])"
  by pat_completeness auto
termination
  by (relation "measure id") auto

declare str_nat.simps [simp del]

text \<open>\<open>s.rstrip("/")\<close>: every trailing slash is removed.\<close>

definition rstrip_slash :: "string \<Rightarrow> string" where
  "rstrip_slash s = rev (dropWhile (\<lambda>c. c = CHR ''/'') (rev s))"

text \<open>
  \<open>s.split(c)\<close> for a one-character separator: the pieces between the occurrences of
  \<open>c\<close>; the empty string gives one empty piece, so the result is never empty and
  \<open>s.split(c)[0]\<close> never raises.
\<close>

fun py_split :: "char \<Rightarrow> string \<Rightarrow> string list" where
  "py_split c [] = [[]]"
| "py_split c (x # xs) =
     (if x = c then [] # py_split c xs
      else (case py_split c xs of [] \<Rightarrow> [[x]] | w # ws \<Rightarrow> (x # w) # ws))"

definition split_first :: "char \<Rightarrow> string \<Rightarrow> string" where
  "split_first c s = (case py_split c s of [] \<Rightarrow> [] | w # ws \<Rightarrow> w)"

text \<open>
  \<open>s.strip()\<close>: leading and trailing white space is removed. The white space of a
  Python \<open>str\<close> among the characters up to 255: tab to carriage return, the separators
  0x1C to 0x1F, space, 0x85 and 0xA0 (a \<open>char\<close> here is one of the first 256 code points;
  white space beyond them cannot occur in a \<open>string\<close>).
\<close>

definition is_space :: "char \<Rightarrow> bool" where
  "is_space c = (c \<in> set [CHR '' '', CHR 0x09, CHR 0x0A, CHR 0x0B, CHR 0x0C, CHR 0x0D,
                          CHR 0x1C, CHR 0x1D, CHR 0x1E, CHR 0x1F, CHR 0x85, CHR 0xA0])"

definition py_strip :: "string \<Rightarrow> string" where
  "py_strip s = rev (dropWhile is_space (rev (dropWhile is_space s)))"

text \<open>\<open>sep.join(xs)\<close>.\<close>

fun py_join :: "string \<Rightarrow> string list \<Rightarrow> string" where
  "py_join sep [] = []"
| "py_join sep [x] = x"
| "py_join sep (x # y # ys) = x @ sep @ py_join sep (y # ys)"

text \<open>
  \<open>[text[i:i+n] for i in range(0, len(text), n)]\<close>: the text cut into pieces of \<open>n\<close>
  characters, the last one shorter; no piece for the empty text. The source uses it with
  \<open>n = 1900\<close> only (a step of 0 would raise in Python and gives no piece here).
\<close>

function chunks :: "nat \<Rightarrow> string \<Rightarrow> string list" where
  "chunks n s = (if n = 0 \<or> s = [] then [] else take n s # chunks n (drop n s))"
  by pat_completeness auto
termination
  by (relation "measure (\<lambda>(n, s). length s)") auto

declare chunks.simps [simp del]

subsection \<open>JSON values\<close>

text \<open>
  What \<open>resp.json()\<close> returns and what the bot sends as a request body. Numbers are
  kept to the integers; a JSON object is its list of members in order.
\<close>

datatype json =
    JNull
  | JBool bool
  | JNum int
  | JStr string
  | JArr "json list"
  | JObj "(string \<times> json) list"

text \<open>Python truthiness of a parsed JSON value (\<open>if x\<close>, \<open>x or y\<close>).\<close>

fun truthy :: "json \<Rightarrow> bool" where
  "truthy JNull = False"
| "truthy (JBool b) = b"
| "truthy (JNum n) = (n \<noteq> 0)"
| "truthy (JStr s) = (s \<noteq> [])"
| "truthy (JArr xs) = (xs \<noteq> [])"
| "truthy (JObj kvs) = (kvs \<noteq> [])"

text \<open>Truthiness of an \<open>Optional[str]\<close>: \<open>None\<close> and the empty string are false.\<close>

fun str_truthy :: "string option \<Rightarrow> bool" where
  "str_truthy None = False"
| "str_truthy (Some s) = (s \<noteq> [])"

section \<open>Configuration\<close>

text \<open>
  \<open>PANELS\<close> maps a panel key to a panel entry; the source documents the entry as
  \<open>{url, api_key, application_api_key}\<close>. It reads the two keys with \<open>.get\<close> and the
  URL with \<open>panel["url"]\<close>; each of the three may be absent from an entry. The adapters
  test \<open>if not panel\<close>, so \<open>PANELS cfg k = None\<close> stands for \<open>PANELS.get(k)\<close> being
  falsy: no entry, or an empty one. \<open>ADMINS\<close> is the set of admin identifier strings.
  Both are read once at start-up and never written.
\<close>

record panel =
  p_url :: "string option"
  p_api_key :: "string option"
  p_application_api_key :: "string option"

record config =
  ADMINS :: "string set"
  PANELS :: "string \<rightharpoonup> panel"

section \<open>The record store\<close>

text \<open>
  The three SQLite tables of \<open>init_db\<close>, each a list of rows in insertion (rowid) order.
  Columns the program never reads back are left out: \<open>id\<close> and \<open>created_at\<close> of
  \<open>users\<close>, \<open>id\<close> of \<open>log_channels\<close>. The \<open>channel_id\<close> column holds
  \<open>str(channel_id)\<close> of an integer and is read back with \<open>int(...)\<close>; the row keeps the
  integer. A column that can hold SQL \<open>NULL\<close> is an \<open>option\<close>.
\<close>

record user_row =
  u_email :: string
  u_password :: string
  u_panel_key :: string
  u_discord_id :: "string option"
  u_nickname :: "string option"

record server_row =
  s_id :: nat
  s_panel_key :: string
  s_server_uuid :: string
  s_name :: string
  s_owner_email :: string
  s_owner_discord :: "string option"
  s_description :: "string option"
  s_created_at :: nat

record log_row =
  l_panel_key :: string
  l_server_id :: "string option"
  l_channel_id :: int

record db =
  users :: "user_row list"
  servers :: "server_row list"
  log_channels :: "log_row list"

subsection \<open>DB helpers\<close>

text \<open>
  \<open>INSERT OR IGNORE INTO users\<close>: the column \<open>email\<close> is \<open>UNIQUE\<close>, so the row is
  appended unless a row with that email is stored, and then the statement does nothing
  and raises nothing.
\<close>

definition save_created_user ::
  "string \<Rightarrow> string \<Rightarrow> string \<Rightarrow> string option \<Rightarrow> string option \<Rightarrow> db \<Rightarrow> db" where
  "save_created_user panel_key email password discord_id nickname d =
     (if email \<in> u_email ` set (users d) then d
      else d\<lparr>users := users d @
        [\<lparr>u_email = email, u_password = password, u_panel_key = panel_key,
          u_discord_id = discord_id, u_nickname = nickname\<rparr>]\<rparr>)"

text \<open>
  \<open>INSERT INTO servers\<close>: always a new row. \<open>id\<close> is \<open>AUTOINCREMENT\<close> (one more than
  the largest stored, rows are never deleted) and \<open>created_at\<close> the current time.
\<close>

definition next_id :: "server_row list \<Rightarrow> nat" where
  "next_id rows = Suc (fold max (map s_id rows) 0)"

definition save_created_server ::
  "nat \<Rightarrow> string \<Rightarrow> string \<Rightarrow> string \<Rightarrow> string \<Rightarrow> string option \<Rightarrow> string option \<Rightarrow> db \<Rightarrow> db" where
  "save_created_server now panel_key server_uuid name owner_email owner_discord description d =
     d\<lparr>servers := servers d @
       [\<lparr>s_id = next_id (servers d), s_panel_key = panel_key, s_server_uuid = server_uuid,
         s_name = name, s_owner_email = owner_email, s_owner_discord = owner_discord,
         s_description = description, s_created_at = now\<rparr>]\<rparr>"

text \<open>
  \<open>INSERT INTO log_channels ... ON CONFLICT(panel_key, server_id) DO UPDATE SET
  channel_id = excluded.channel_id\<close> under \<open>UNIQUE(panel_key, server_id)\<close>. SQLite
  counts every \<open>NULL\<close> as distinct from every value and from every other \<open>NULL\<close> in a
  \<open>UNIQUE\<close> constraint: a stored row conflicts with the new one only when both
  \<open>server_id\<close>s are not \<open>NULL\<close> and equal, with equal \<open>panel_key\<close>s. On a conflict the
  stored row's \<open>channel_id\<close> is overwritten; otherwise the new row is appended.
\<close>

fun sql_eq :: "string option \<Rightarrow> string option \<Rightarrow> bool" where
  "sql_eq (Some a) (Some b) = (a = b)"
| "sql_eq _ _ = False"

definition conflicts :: "string \<Rightarrow> string option \<Rightarrow> log_row \<Rightarrow> bool" where
  "conflicts panel_key server_id r = (l_panel_key r = panel_key \<and> sql_eq (l_server_id r) server_id)"

definition set_log_channel :: "string \<Rightarrow> int \<Rightarrow> string option \<Rightarrow> db \<Rightarrow> db" where
  "set_log_channel panel_key channel_id server_id d =
     (if list_ex (conflicts panel_key server_id) (log_channels d)
      then d\<lparr>log_channels :=
        map (\<lambda>r. if conflicts panel_key server_id r then r\<lparr>l_channel_id := channel_id\<rparr> else r)
          (log_channels d)\<rparr>
      else d\<lparr>log_channels := log_channels d @
        [\<lparr>l_panel_key = panel_key, l_server_id = server_id, l_channel_id = channel_id\<rparr>]\<rparr>)"

text \<open>
  \<open>get_log_channel\<close>: when \<open>server_id\<close> is truthy, the first row with that panel key and
  that server id; failing that (or when \<open>server_id\<close> is \<open>None\<close> or empty) the first row
  with that panel key and a \<open>NULL\<close> server id; else \<open>None\<close>. \<open>fetchone\<close> gives the
  first row in rowid order.
\<close>

definition get_log_channel :: "string \<Rightarrow> string option \<Rightarrow> db \<Rightarrow> int option" where
  "get_log_channel panel_key server_id d =
     (case (if str_truthy server_id
            then find (\<lambda>r. l_panel_key r = panel_key \<and> l_server_id r = server_id) (log_channels d)
            else None) of
        Some row \<Rightarrow> Some (l_channel_id row)
      | None \<Rightarrow>
          (case find (\<lambda>r. l_panel_key r = panel_key \<and> l_server_id r = None) (log_channels d) of
             Some row \<Rightarrow> Some (l_channel_id row)
           | None \<Rightarrow> None))"

text \<open>
  \<open>find_user_by_discord\<close>: the first user row whose \<open>discord_id\<close> is the given string,
  as the triple (email, password, panel key) the source returns as a dict.
\<close>

definition find_user_by_discord :: "string \<Rightarrow> db \<Rightarrow> (string \<times> string \<times> string) option" where
  "find_user_by_discord discord_id d =
     (case find (\<lambda>r. u_discord_id r = Some discord_id) (users d) of
        None \<Rightarrow> None
      | Some row \<Rightarrow> Some (u_email row, u_password row, u_panel_key row))"

text \<open>
  \<open>list_saved_servers\<close>: \<open>ORDER BY created_at DESC LIMIT limit\<close>: the latest first, and
  rows with equal time stamps in rowid order, as SQLite returns them (the sort is
  stable).
\<close>

definition list_saved_servers :: "nat \<Rightarrow> db \<Rightarrow> server_row list" where
  "list_saved_servers limit d =
     take limit (sort_key (\<lambda>r. - int (s_created_at r)) (servers d))"

section \<open>The outside world\<close>

text \<open>
  A message text is kept as the pieces of its f-string: literal text (\<open>T\<close>), an
  interpolated adapter result or other Python value (\<open>R\<close>, whose \<open>repr\<close> the source
  prints), an interpolated optional string (\<open>O\<close>). Decorations outside ASCII (emoji,
  dashes) of the source's literals are left out, and a line break inside a literal is
  written as a space.
\<close>

datatype frag = T string | R json | O "string option"

record embed =
  e_title :: string
  e_description :: "frag list"
  e_color :: nat
  e_footer :: "frag list"

record request =
  r_method :: string
  r_url :: string
  r_headers :: "(string \<times> string) list"
  r_json :: "json option"

text \<open>
  What comes of an HTTP exchange: a response, with its status and its body parsed as
  JSON (\<open>None\<close> when \<open>resp.json()\<close> raises), or no response at all (\<open>Unreachable\<close>:
  \<open>sess.request\<close> raises, for one a connection error).
\<close>

datatype reply = Reply nat "json option" | Unreachable

text \<open>
  What a call of an adapter comes to: the dict it returns, or the exception that leaves
  it. Nothing in the adapters or in the handlers catches such an exception, so it ends
  the handler that made the call.
\<close>

datatype outcome = Returned json | Raised string


text \<open>A message event seen by \<open>bot.wait_for\<close>: author, channel, content, and the
  seconds between the start of the wait and its arrival.\<close>

record event =
  m_author :: nat
  m_channel :: int
  m_content :: string
  m_after :: nat

text \<open>
  What a handler does to the outside, in order. \<open>Http\<close> is a request sent to the panel;
  the others are calls of the chat platform. \<open>Raise\<close> ends a handler with an uncaught
  exception.
\<close>

datatype effect =
    Http request
  | SendMessage "frag list"
  | Defer
  | Followup "frag list"
  | CtxSend "frag list"
  | DmEmbed nat embed
  | DmText nat "frag list"
  | FetchChannel int
  | ChannelSend int embed
  | Raise string

text \<open>
  What the outside answers: what comes of a request to the panel, the value of
  \<open>secrets.token_urlsafe(10)\<close>, the clock, whether a user accepts direct messages,
  whether a channel is in the cache or can be fetched, and the messages that arrive
  while a handler waits.
\<close>

record env =
  http :: "request \<Rightarrow> reply"
  token_urlsafe :: string
  now :: nat
  dm_open :: "nat \<Rightarrow> bool"
  channel_cached :: "int \<Rightarrow> bool"
  channel_fetchable :: "int \<Rightarrow> bool"
  inbox :: "event list"

definition DEFAULT_TIMEOUT :: nat where
  "DEFAULT_TIMEOUT = 60"

definition http_requests :: "effect list \<Rightarrow> request list" where
  "http_requests es = concat (map (\<lambda>e. case e of Http r \<Rightarrow> [r] | _ \<Rightarrow> []) es)"

section \<open>HTTP helpers\<close>

definition error_json :: "string \<Rightarrow> json" where
  "error_json msg = JObj [(''error'', JStr msg)]"

text \<open>
  The end of both adapters: status 204 gives \<open>{"status": 204}\<close>, a body that parses is
  returned as it is, one that does not gives \<open>invalid_json_response_<status>\<close>; with no
  response the exception of \<open>sess.request\<close> leaves the adapter.
\<close>

definition normalise :: "reply \<Rightarrow> outcome" where
  "normalise rp = (case rp of
       Reply st body \<Rightarrow>
         if st = 204 then Returned (JObj [(''status'', JNum 204)])
         else (case body of
                 Some j \<Rightarrow> Returned j
               | None \<Rightarrow> Returned (error_json (''invalid_json_response_'' @ str_nat st)))
     | Unreachable \<Rightarrow> Raised ''aiohttp.ClientError'')"

definition mk_request :: "string \<Rightarrow> string \<Rightarrow> string \<Rightarrow> json option \<Rightarrow> request" where
  "mk_request method u key json_body =
     \<lparr>r_method = method, r_url = u,
      r_headers = [(''Authorization'', ''Bearer '' @ key),
                   (''Content-Type'', ''application/json''),
                   (''Accept'', ''application/json'')],
      r_json = json_body\<rparr>"

text \<open>
  \<open>app_api_request\<close> and \<open>client_api_request\<close>: what the call comes to, and the request
  sent, if one was. In the order of the source: no panel entry, then no key, each
  returned as an error dict before anything is sent; then \<open>panel["url"]\<close>, which raises
  \<open>KeyError\<close> for an entry without a URL; then the request. The two differ in the key
  they read, the error they name and the path prefix.
\<close>

definition app_api_request ::
  "config \<Rightarrow> env \<Rightarrow> string \<Rightarrow> string \<Rightarrow> string \<Rightarrow> json option \<Rightarrow> outcome \<times> effect list" where
  "app_api_request cfg w panel_key path method json_body =
     (case PANELS cfg panel_key of
        None \<Rightarrow> (Returned (error_json ''panel_not_found''), [])
      | Some pn \<Rightarrow>
          (case p_application_api_key pn of
             None \<Rightarrow> (Returned (error_json ''missing_application_key''), [])
           | Some key \<Rightarrow>
               if key = [] then (Returned (error_json ''missing_application_key''), [])
               else
                 (case p_url pn of
                    None \<Rightarrow> (Raised ''KeyError'', [])
                  | Some u \<Rightarrow>
                      (let rq = mk_request method
                             (rstrip_slash u @ ''/api/application'' @ path) key json_body
                       in (normalise (http w rq), [Http rq])))))"

definition client_api_request ::
  "config \<Rightarrow> env \<Rightarrow> string \<Rightarrow> string \<Rightarrow> string \<Rightarrow> json option \<Rightarrow> outcome \<times> effect list" where
  "client_api_request cfg w panel_key path method json_body =
     (case PANELS cfg panel_key of
        None \<Rightarrow> (Returned (error_json ''panel_not_found''), [])
      | Some pn \<Rightarrow>
          (case p_api_key pn of
             None \<Rightarrow> (Returned (error_json ''missing_client_key''), [])
           | Some key \<Rightarrow>
               if key = [] then (Returned (error_json ''missing_client_key''), [])
               else
                 (case p_url pn of
                    None \<Rightarrow> (Raised ''KeyError'', [])
                  | Some u \<Rightarrow>
                      (let rq = mk_request method
                             (rstrip_slash u @ ''/api/client'' @ path) key json_body
                       in (normalise (http w rq), [Http rq])))))"

section \<open>Utilities: admin check, embeds, direct messages, logs\<close>

definition is_admin_user :: "config \<Rightarrow> nat \<Rightarrow> bool" where
  "is_admin_user cfg user = (str_nat user \<in> ADMINS cfg)"

definition default_color :: nat where
  "default_color = 0x1E90FF"

definition lightning_embed :: "string \<Rightarrow> frag list \<Rightarrow> nat \<Rightarrow> embed" where
  "lightning_embed title description color =
     \<lparr>e_title = title, e_description = description, e_color = color,
      e_footer = [T ''Flash Nodes Deploy'']\<rparr>"

text \<open>\<open>dm_user_embed\<close>: one attempt; \<open>True\<close> when \<open>user.send\<close> does not raise.\<close>

definition dm_user_embed :: "env \<Rightarrow> nat \<Rightarrow> string \<Rightarrow> frag list \<Rightarrow> nat \<Rightarrow> bool \<times> effect list" where
  "dm_user_embed w user title description color =
     (dm_open w user, [DmEmbed user (lightning_embed title description color)])"

text \<open>
  \<open>send_log_embed\<close>: nothing without a (non-zero) log channel; the channel is taken
  from the cache or fetched, and nothing is sent when the fetch fails. A failure of
  \<open>channel.send\<close> is swallowed, so the attempt is all there is to see. The footer
  prints \<open>server_id or 'N/A'\<close>; \<open>send_log_embed_shown\<close> takes that text as an argument,
  for the one caller whose \<open>server_id\<close> need not be a string.
\<close>

definition send_log_embed_shown ::
  "env \<Rightarrow> db \<Rightarrow> string \<Rightarrow> string option \<Rightarrow> string \<Rightarrow> string \<Rightarrow> frag list \<Rightarrow> nat \<Rightarrow> effect list" where
  "send_log_embed_shown w d panel_key server_id shown title description color =
     (case get_log_channel panel_key server_id d of
        None \<Rightarrow> []
      | Some channel_id \<Rightarrow>
          if channel_id = 0 then []
          else
            (let em = (lightning_embed title description color)
                   \<lparr>e_footer := [T ''Panel: '', T panel_key, T '' | Server: '', T shown]\<rparr>
             in if channel_cached w channel_id then [ChannelSend channel_id em]
                else if channel_fetchable w channel_id
                  then [FetchChannel channel_id, ChannelSend channel_id em]
                  else [FetchChannel channel_id]))"

definition send_log_embed ::
  "env \<Rightarrow> db \<Rightarrow> string \<Rightarrow> string option \<Rightarrow> string \<Rightarrow> frag list \<Rightarrow> nat \<Rightarrow> effect list" where
  "send_log_embed w d panel_key server_id title description color =
     send_log_embed_shown w d panel_key server_id
       (case server_id of None \<Rightarrow> ''N/A'' | Some s \<Rightarrow> if s = [] then ''N/A'' else s)
       title description color"

section \<open>Slash commands (admin)\<close>

definition not_authorized :: "frag list" where
  "not_authorized = [T ''Not authorized.'']"

definition permissions :: json where
  "permissions = JArr [JStr ''control.start'', JStr ''control.stop'', JStr ''control.restart'',
     JStr ''control.console'', JStr ''websocket.connect'']"

text \<open>
  \<open>slash_createuser\<close>. The arguments after the invoking user are those of the command;
  \<open>discord_member\<close> is the member's identifier. The result is the store afterwards and
  what the handler did. (\<open>is_admin\<close> is an argument of the command that the source never
  reads.) When the adapter call raises, the handler ends there: nothing is stored and
  nobody is told.
\<close>

definition createuser_payload :: "string \<Rightarrow> string \<Rightarrow> string \<Rightarrow> string \<Rightarrow> json" where
  "createuser_payload email firstname lastname pwd =
     JObj [(''email'', JStr email), (''username'', JStr (split_first CHR ''@'' email)),
           (''first_name'', JStr firstname), (''last_name'', JStr lastname),
           (''password'', JStr pwd)]"

text \<open>\<open>password or secrets.token_urlsafe(10)\<close>.\<close>

definition choose_password :: "env \<Rightarrow> string option \<Rightarrow> string" where
  "choose_password w password =
     (case password of
        None \<Rightarrow> token_urlsafe w
      | Some p \<Rightarrow> if p = [] then token_urlsafe w else p)"

definition slash_createuser ::
  "config \<Rightarrow> env \<Rightarrow> nat \<Rightarrow> string \<Rightarrow> string \<Rightarrow> string option \<Rightarrow> string \<Rightarrow> string \<Rightarrow> bool \<Rightarrow>
   string option \<Rightarrow> nat option \<Rightarrow> db \<Rightarrow> db \<times> effect list" where
  "slash_createuser cfg w user pnl email password firstname lastname is_admin nickname
       discord_member d =
     (if \<not> is_admin_user cfg user then (d, [SendMessage not_authorized])
      else
        (let pwd = choose_password w password;
             payload = createuser_payload email firstname lastname pwd
         in case app_api_request cfg w pnl ''/users'' ''POST'' (Some payload) of
              (Raised e, net) \<Rightarrow> (d, [Defer] @ net @ [Raise e])
            | (Returned res, net) \<Rightarrow>
                (let d' = save_created_user pnl email pwd (map_option str_nat discord_member)
                            nickname d;
                     dm_desc = [T ''User `'', T email, T ''` created on `'', T pnl,
                                T ''`. Password: ||'', T pwd, T ''|| Response: `'', R res, T ''`''];
                     (dm_ok, dm1) = dm_user_embed w user ''User Created'' dm_desc default_color;
                     dm2 = (case discord_member of
                              None \<Rightarrow> []
                            | Some m \<Rightarrow> snd (dm_user_embed w m ''Your Panel Account''
                                [T ''Email: `'', T email, T ''` Password: ||'', T pwd,
                                 T ''|| Panel: `'', T pnl, T ''`''] default_color));
                     lg = send_log_embed w d' pnl None ''User Created'' dm_desc default_color
                 in (d', [Defer] @ net @ dm1 @ dm2 @ lg @
                       [Followup (if dm_ok then [T ''User created. Check your DM.'']
                                  else [T ''User created. DM blocked - response: '', R res])]))))"

text \<open>
  \<open>d.get(key, default)\<close> on a parsed value: the member's value, the default when the
  object has no such member, and \<open>AttributeError\<close> when the value is not an object.
\<close>

definition py_get :: "json \<Rightarrow> string \<Rightarrow> json \<Rightarrow> string + json" where
  "py_get j key dflt = (case j of
       JObj kvs \<Rightarrow> (case map_of kvs key of None \<Rightarrow> Inr dflt | Some v \<Rightarrow> Inr v)
     | _ \<Rightarrow> Inl ''AttributeError'')"

text \<open>\<open>x.get("attributes", {}).get("uuid")\<close>.\<close>

definition attributes_uuid :: "json \<Rightarrow> string + json" where
  "attributes_uuid x = (case py_get x ''attributes'' (JObj []) of
       Inl e \<Rightarrow> Inl e
     | Inr a \<Rightarrow> py_get a ''uuid'' JNull)"

text \<open>
  The \<open>server_uuid\<close> of \<open>slash_createserver\<close>: \<open>None\<close> unless the result is a dict;
  then the uuid of its attributes when truthy, else that of \<open>res["object"]\<close> when
  \<open>res.get("object")\<close> is truthy, else \<open>None\<close>.
\<close>

definition extract_uuid :: "json \<Rightarrow> string + json" where
  "extract_uuid res = (case res of
       JObj kvs \<Rightarrow>
         (case attributes_uuid res of
            Inl e \<Rightarrow> Inl e
          | Inr u \<Rightarrow>
              if truthy u then Inr u
              else (case map_of kvs ''object'' of
                      None \<Rightarrow> Inr JNull
                    | Some ob \<Rightarrow> if truthy ob then attributes_uuid ob else Inr JNull))
     | _ \<Rightarrow> Inr JNull)"

definition str_int :: "int \<Rightarrow> string" where
  "str_int i = (if i < 0 then CHR ''-'' # str_nat (nat (- i)) else str_nat (nat i))"

text \<open>
  A Python value bound to a \<open>TEXT\<close> column or compared with one: a string as it is, an
  integer of at most 64 bits as its decimal text (a larger one makes \<open>sqlite3\<close> raise
  \<open>OverflowError\<close>), a boolean as the number it is; a list or a dict cannot be bound
  (\<open>sqlite3.ProgrammingError\<close>), and \<open>None\<close> is \<open>NULL\<close>.
\<close>

fun sql_text :: "json \<Rightarrow> string + string option" where
  "sql_text JNull = Inr None"
| "sql_text (JBool b) = Inr (Some (if b then ''1'' else ''0''))"
| "sql_text (JNum n) =
     (if - (2 ^ 63) \<le> n \<and> n < 2 ^ 63 then Inr (Some (str_int n)) else Inl ''OverflowError'')"
| "sql_text (JStr s) = Inr (Some s)"
| "sql_text (JArr xs) = Inl ''sqlite3.ProgrammingError''"
| "sql_text (JObj kvs) = Inl ''sqlite3.ProgrammingError''"

text \<open>\<open>str(x)\<close> of a value that can be bound, as an f-string prints it.\<close>

fun py_str :: "json \<Rightarrow> string" where
  "py_str JNull = ''None''"
| "py_str (JBool b) = (if b then ''True'' else ''False'')"
| "py_str (JNum n) = str_int n"
| "py_str (JStr s) = s"
| "py_str (JArr xs) = []"
| "py_str (JObj kvs) = []"

definition owner_unresolved :: "frag list" where
  "owner_unresolved = [T ''Provide owner_email or mention owner_discord registered in DB.'']"

definition createserver_payload ::
  "string \<Rightarrow> string \<Rightarrow> int \<Rightarrow> string \<Rightarrow> int \<Rightarrow> int \<Rightarrow> int \<Rightarrow> string \<Rightarrow> json" where
  "createserver_payload name owner egg docker_image memory disk cpu startup =
     JObj [(''name'', JStr name), (''user'', JStr owner), (''egg'', JNum egg),
           (''docker_image'', JStr docker_image), (''startup'', JStr startup),
           (''environment'', JObj []),
           (''limits'', JObj [(''memory'', JNum memory), (''swap'', JNum 0), (''disk'', JNum disk),
                             (''io'', JNum 500), (''cpu'', JNum cpu)]),
           (''allocation'', JObj [(''default'', JNum 0)]),
           (''pack'', JNull), (''feature_limits'', JObj [])]"

text \<open>
  \<open>slash_createserver\<close>. After the adapter call the handler can end with an exception:
  that of the call itself, \<open>AttributeError\<close> from the uuid look-up, or the one \<open>sqlite3\<close>
  raises for a uuid it cannot bind (the lists and dicts never reach \<open>py_str\<close>).
\<close>

definition slash_createserver ::
  "config \<Rightarrow> env \<Rightarrow> nat \<Rightarrow> string \<Rightarrow> string option \<Rightarrow> nat option \<Rightarrow> string \<Rightarrow> int \<Rightarrow> string \<Rightarrow>
   int \<Rightarrow> int \<Rightarrow> int \<Rightarrow> string \<Rightarrow> string option \<Rightarrow> db \<Rightarrow> db \<times> effect list" where
  "slash_createserver cfg w user pnl owner_email owner_discord name egg docker_image
       memory disk cpu startup description d =
     (if \<not> is_admin_user cfg user then (d, [SendMessage not_authorized])
      else
        (let dbuser = (if \<not> str_truthy owner_email
                       then (case owner_discord of
                               None \<Rightarrow> None
                             | Some m \<Rightarrow> find_user_by_discord (str_nat m) d)
                       else None);
             resolved_owner_email = (case dbuser of
                                       None \<Rightarrow> owner_email
                                     | Some (e, pw, pk) \<Rightarrow> Some e);
             owner_discord_id = (case dbuser of
                                   None \<Rightarrow> None
                                 | Some u \<Rightarrow> map_option str_nat owner_discord)
         in case resolved_owner_email of
              None \<Rightarrow> (d, [Defer, Followup owner_unresolved])
            | Some owner \<Rightarrow>
                if owner = [] then (d, [Defer, Followup owner_unresolved])
                else
                  (let payload = createserver_payload name owner egg docker_image memory disk
                         cpu startup
                   in case app_api_request cfg w pnl ''/servers'' ''POST'' (Some payload) of
                        (Raised e, net) \<Rightarrow> (d, [Defer] @ net @ [Raise e])
                      | (Returned res, net) \<Rightarrow>
                          (case extract_uuid res of
                             Inl e \<Rightarrow> (d, [Defer] @ net @ [Raise e])
                           | Inr server_uuid \<Rightarrow>
                               (case sql_text (if truthy server_uuid then server_uuid
                                               else JStr ''unknown'') of
                                  Inl e \<Rightarrow> (d, [Defer] @ net @ [Raise e])
                                | Inr None \<Rightarrow> (d, [Defer] @ net @ [Raise ''unreachable''])
                                | Inr (Some stored) \<Rightarrow>
                                    (let d' = save_created_server (now w) pnl stored name owner
                                           owner_discord_id description d;
                                         dm_desc = [T ''Server `'', T name, T ''` created for `'',
                                                    T owner, T ''` UUID: `'', R server_uuid,
                                                    T ''` Response: `'', R res, T ''`''];
                                         dm1 = snd (dm_user_embed w user ''Server Created'' dm_desc
                                                  default_color);
                                         dm2 = (case (owner_discord, owner_discord_id) of
                                                  (Some m, Some i) \<Rightarrow>
                                                    snd (dm_user_embed w m ''Your Server Created''
                                                           dm_desc default_color)
                                                | _ \<Rightarrow> []);
                                         lg = send_log_embed_shown w d' pnl
                                                (if truthy server_uuid then Some stored else None)
                                                (if truthy server_uuid then py_str server_uuid
                                                 else ''N/A'')
                                                ''Server Created'' dm_desc default_color
                                     in (d', [Defer] @ net @ dm1 @ dm2 @ lg @
                                          [Followup [T ''Server creation requested. Details sent to DM.'']])))))))"

definition slash_deleteserver ::
  "config \<Rightarrow> env \<Rightarrow> nat \<Rightarrow> string \<Rightarrow> string \<Rightarrow> db \<Rightarrow> db \<times> effect list" where
  "slash_deleteserver cfg w user pnl server_uuid d =
     (if \<not> is_admin_user cfg user then (d, [SendMessage not_authorized])
      else
        (case app_api_request cfg w pnl (''/servers/'' @ server_uuid) ''DELETE'' None of
           (Raised e, net) \<Rightarrow> (d, [Defer] @ net @ [Raise e])
         | (Returned res, net) \<Rightarrow>
             (let desc = [T ''Delete requested for `'', T server_uuid, T ''` - response: '', R res];
                  dm1 = snd (dm_user_embed w user ''Server Delete Requested'' desc 0xE74C3C);
                  lg = send_log_embed w d pnl (Some server_uuid) ''Server Delete'' desc 0xE74C3C
              in (d, [Defer] @ net @ dm1 @ lg @
                    [Followup [T ''Delete requested. Check your DM.'']]))))"

definition server_line :: "server_row \<Rightarrow> string" where
  "server_line r = ''#'' @ str_nat (s_id r) @ '' | panel:'' @ s_panel_key r @ '' | uuid:'' @
     s_server_uuid r @ '' | name:'' @ s_name r @ '' | owner:'' @ s_owner_email r"

definition slash_viewservers :: "config \<Rightarrow> env \<Rightarrow> nat \<Rightarrow> db \<Rightarrow> db \<times> effect list" where
  "slash_viewservers cfg w user d =
     (if \<not> is_admin_user cfg user then (d, [SendMessage not_authorized])
      else
        (let rows = list_saved_servers 200 d
         in if rows = [] then (d, [SendMessage [T ''No stored servers.'']])
            else
              (let text = py_join [CHR 0x0A] (map server_line rows)
               in (d, map (\<lambda>chunk. DmText user [T ''Servers: '', T chunk]) (chunks 1900 text) @
                      [SendMessage [T ''Sent server list to your DMs.'']]))))"

section \<open>Log-channel slash commands\<close>

text \<open>A text channel is its identifier; \<open>channel.mention\<close> is \<open><#id>\<close>.\<close>

definition mention :: "int \<Rightarrow> string" where
  "mention channel = ''<#'' @ str_int channel @ ''>''"

definition slash_setlogchannel ::
  "config \<Rightarrow> env \<Rightarrow> nat \<Rightarrow> string \<Rightarrow> int \<Rightarrow> db \<Rightarrow> db \<times> effect list" where
  "slash_setlogchannel cfg w user pnl channel d =
     (if \<not> is_admin_user cfg user then (d, [SendMessage not_authorized])
      else (set_log_channel pnl channel None d,
            [SendMessage [T ''Panel `'', T pnl, T ''` logs set to '', T (mention channel)]]))"

definition slash_setserverlog ::
  "config \<Rightarrow> env \<Rightarrow> nat \<Rightarrow> string \<Rightarrow> string \<Rightarrow> int \<Rightarrow> db \<Rightarrow> db \<times> effect list" where
  "slash_setserverlog cfg w user pnl server_id channel d =
     (if \<not> is_admin_user cfg user then (d, [SendMessage not_authorized])
      else (set_log_channel pnl channel (Some server_id) d,
            [SendMessage [T ''Server `'', T server_id, T ''` logs set to '', T (mention channel)]]))"

section \<open>Share flows\<close>

text \<open>
  \<open>bot.wait_for("message", check, timeout)\<close>: the first arriving message that passes
  the check before the time is out; \<open>None\<close> is \<open>asyncio.TimeoutError\<close>.
\<close>

definition wait_for :: "env \<Rightarrow> (event \<Rightarrow> bool) \<Rightarrow> nat \<Rightarrow> event option" where
  "wait_for w check timeout = find (\<lambda>m. m_after m < timeout \<and> check m) (inbox w)"

definition invite_payload :: "string \<Rightarrow> json" where
  "invite_payload email = JObj [(''email'', JStr email), (''permissions'', permissions)]"

definition timed_out :: "frag list" where
  "timed_out = [T ''Timed out. Try again.'']"

text \<open>
  \<open>ShareView.add_user\<close> for the view opened on \<open>panel_key\<close> and \<open>server_id\<close>, pressed by
  \<open>user\<close> in \<open>channel\<close>. It does not write to the store. The \<open>except\<close> clause catches
  \<open>asyncio.TimeoutError\<close> only, so an exception of the adapter call ends the handler.
\<close>

definition add_user ::
  "config \<Rightarrow> env \<Rightarrow> db \<Rightarrow> string \<Rightarrow> string \<Rightarrow> nat \<Rightarrow> int \<Rightarrow> effect list" where
  "add_user cfg w d panel_key server_id user channel =
     [SendMessage [T ''Reply with the email to invite (60s).'']] @
     (case wait_for w (\<lambda>m. m_author m = user \<and> m_channel m = channel) DEFAULT_TIMEOUT of
        None \<Rightarrow> [Followup timed_out]
      | Some msg \<Rightarrow>
          (let email = py_strip (m_content msg)
           in case client_api_request cfg w panel_key
                     (''/servers/'' @ server_id @ ''/users'') ''POST''
                     (Some (invite_payload email)) of
                (Raised e, net) \<Rightarrow> net @ [Raise e]
              | (Returned r, net) \<Rightarrow>
                  net @ [Followup [T ''Invited `'', T email, T ''` - result: '', R r]] @
                  send_log_embed w d panel_key (Some server_id) ''Subuser Invited''
                    [T email, T '' - '', R r] default_color))"



section \<open>Sequences of account insertions, and concrete data\<close>

text \<open>One call of \<open>save_created_user\<close> as a tuple of its arguments, and a sequence of
  calls run in order.\<close>

fun save_call ::
  "string \<times> string \<times> string \<times> string option \<times> string option \<Rightarrow> db \<Rightarrow> db" where
  "save_call (panel_key, email, password, discord_id, nickname) d =
     save_created_user panel_key email password discord_id nickname d"

definition run_saves ::
  "(string \<times> string \<times> string \<times> string option \<times> string option) list \<Rightarrow> db \<Rightarrow> db" where
  "run_saves calls d = fold save_call calls d"

text \<open>
  A configuration with one admin (identifier 1) and two panels: \<open>alpha\<close> with both keys,
  \<open>beta\<close> with no client key and an empty application key. An outside world whose panel
  answers every request with a server object, and an empty store.
\<close>

definition ex_cfg :: config where
  "ex_cfg = \<lparr>ADMINS = {''1''},
     PANELS = [''alpha'' \<mapsto> \<lparr>p_url = Some ''https://panel.example/'',
                                 p_api_key = Some ''ck'',
                                 p_application_api_key = Some ''ak''\<rparr>,
               ''beta'' \<mapsto> \<lparr>p_url = Some ''https://beta.example'', p_api_key = None,
                                p_application_api_key = Some []\<rparr>]\<rparr>"

definition ex_env :: env where
  "ex_env = \<lparr>http = (\<lambda>rq. Reply 200 (Some (JObj [(''attributes'', JObj [(''uuid'', JStr ''srv-1'')])]))),
     token_urlsafe = ''tok'', now = 0, dm_open = (\<lambda>u. True), channel_cached = (\<lambda>c. True),
     channel_fetchable = (\<lambda>c. True), inbox = []\<rparr>"

definition empty_db :: db where
  "empty_db = \<lparr>users = [], servers = [], log_channels = []\<rparr>"

text \<open>A store with two accounts, and one with an instance sink and a default sink.\<close>

definition ex_user_a :: user_row where
  "ex_user_a = \<lparr>u_email = ''a@x.com'', u_password = ''first'', u_panel_key = ''alpha'',
     u_discord_id = None, u_nickname = None\<rparr>"

definition ex_user_b :: user_row where
  "ex_user_b = \<lparr>u_email = ''b@x.com'', u_password = ''pw-b'', u_panel_key = ''alpha'',
     u_discord_id = Some ''9'', u_nickname = Some ''bee''\<rparr>"

definition ex_users_db :: db where
  "ex_users_db = \<lparr>users = [ex_user_a, ex_user_b], servers = [], log_channels = []\<rparr>"

definition ex_logs_db :: db where
  "ex_logs_db = \<lparr>users = [], servers = [],
     log_channels = [\<lparr>l_panel_key = ''alpha'', l_server_id = Some ''srv-1'', l_channel_id = 111\<rparr>,
                     \<lparr>l_panel_key = ''alpha'', l_server_id = None, l_channel_id = 222\<rparr>]\<rparr>"

text \<open>A world whose panel cannot be reached.\<close>

definition ex_down_env :: env where
  "ex_down_env = ex_env\<lparr>http := (\<lambda>rq. Unreachable)\<rparr>"

text \<open>A world where, while user 1 waits in channel 10, another user writes there in time
  and user 1 writes only after 61 seconds.\<close>

definition ex_late_env :: env where
  "ex_late_env = ex_env\<lparr>inbox :=
     [\<lparr>m_author = 2, m_channel = 10, m_content = ''c@x.com'', m_after = 5\<rparr>,
      \<lparr>m_author = 1, m_channel = 10, m_content = ''b@x.com'', m_after = 61\<rparr>]\<rparr>"

section \<open>Properties of the store\<close>

lemma save_created_user_present:
  "email \<in> u_email ` set (users d) \<Longrightarrow> save_created_user pk email pw did nick d = d"
  by (simp add: save_created_user_def)

section \<open>Helper facts\<close>

lemma str_nat_examples: "str_nat 1 = ''1''" "str_nat 5 = ''5''" "str_nat 7 = ''7''"
  by code_simp+

lemma admin1: "is_admin_user ex_cfg 1"
  unfolding is_admin_user_def ex_cfg_def by code_simp

lemma not_admin7: "\<not> is_admin_user ex_cfg 7"
  unfolding is_admin_user_def ex_cfg_def by code_simp

lemma http_requests_simps:
  "http_requests [] = []"
  "http_requests (Http rq # es) = rq # http_requests es"
  "http_requests (SendMessage m # es) = http_requests es"
  "http_requests (Defer # es) = http_requests es"
  "http_requests (Followup m # es) = http_requests es"
  "http_requests (CtxSend m # es) = http_requests es"
  "http_requests (DmEmbed u em # es) = http_requests es"
  "http_requests (DmText u m # es) = http_requests es"
  "http_requests (FetchChannel c # es) = http_requests es"
  "http_requests (ChannelSend c em # es) = http_requests es"
  "http_requests (Raise x # es) = http_requests es"
  "http_requests (xs @ ys) = http_requests xs @ http_requests ys"
  by (simp_all add: http_requests_def)

lemma http_requests_log_shown:
  "http_requests (send_log_embed_shown w d pk sid shown title descr col) = []"
  by (cases "get_log_channel pk sid d")
     (simp_all add: send_log_embed_shown_def http_requests_simps Let_def)

lemma http_requests_log: "http_requests (send_log_embed w d pk sid title descr col) = []"
  by (simp add: send_log_embed_def http_requests_log_shown)

lemma http_requests_app_api_request:
  "rq \<in> set (http_requests (snd (app_api_request cfg w pk path meth body))) \<Longrightarrow> r_json rq = body"
  by (auto simp: app_api_request_def http_requests_simps mk_request_def Let_def
      split: option.splits if_splits)

lemma http_requests_createuser:
  "http_requests (snd (slash_createuser cfg w user pnl email password fn ln ia nick dm d)) =
     (if is_admin_user cfg user
      then http_requests (snd (app_api_request cfg w pnl ''/users'' ''POST''
             (Some (createuser_payload email fn ln (choose_password w password)))))
      else [])"
proof (cases "is_admin_user cfg user")
  case False
  then show ?thesis
    by (simp add: slash_createuser_def http_requests_simps)
next
  case True
  obtain res net where a: "app_api_request cfg w pnl ''/users'' ''POST''
      (Some (createuser_payload email fn ln (choose_password w password))) = (res, net)"
    by (cases "app_api_request cfg w pnl ''/users'' ''POST''
      (Some (createuser_payload email fn ln (choose_password w password)))")
  show ?thesis
    using True a
    by (cases res; cases dm)
       (simp_all add: slash_createuser_def Let_def dm_user_embed_def http_requests_simps
          http_requests_log)
qed

lemma save_created_user_keeps_email:
  "e \<in> u_email ` set (users d) \<Longrightarrow>
   e \<in> u_email ` set (users (save_created_user pk em pw did nick d))"
  by (auto simp: save_created_user_def)

lemma save_created_user_filter:
  "e \<in> u_email ` set (users d) \<Longrightarrow>
   filter (\<lambda>x. u_email x = e) (users (save_created_user pk em pw did nick d)) =
   filter (\<lambda>x. u_email x = e) (users d)"
  by (auto simp: save_created_user_def)

lemma fold_save_call_keeps:
  "e \<in> u_email ` set (users d) \<Longrightarrow>
   e \<in> u_email ` set (users (fold save_call cs d)) \<and>
   filter (\<lambda>x. u_email x = e) (users (fold save_call cs d)) = filter (\<lambda>x. u_email x = e) (users d)"
proof (induction cs arbitrary: d)
  case Nil
  then show ?case by simp
next
  case (Cons c cs)
  obtain pk em pw did nick where c: "c = (pk, em, pw, did, nick)"
    by (cases c) auto
  let ?d = "save_created_user pk em pw did nick d"
  have "e \<in> u_email ` set (users ?d)"
    using Cons.prems by (rule save_created_user_keeps_email)
  from Cons.IH [OF this] show ?case
    using Cons.prems by (simp add: c save_created_user_filter)
qed

lemma save_created_user_unchanged_iff:
  "(save_created_user pk em pw did nick d = d) = (em \<in> u_email ` set (users d))"
proof
  assume eq: "save_created_user pk em pw did nick d = d"
  show "em \<in> u_email ` set (users d)"
  proof (rule ccontr)
    assume "em \<notin> u_email ` set (users d)"
    then have "users (save_created_user pk em pw did nick d) =
        users d @ [\<lparr>u_email = em, u_password = pw, u_panel_key = pk,
          u_discord_id = did, u_nickname = nick\<rparr>]"
      by (simp add: save_created_user_def)
    with eq show False by simp
  qed
next
  assume "em \<in> u_email ` set (users d)"
  then show "save_created_user pk em pw did nick d = d"
    by (simp add: save_created_user_def)
qed

lemma py_split_nonempty: "py_split c s \<noteq> []"
  by (induction s) (auto split: list.splits)

lemma split_first_takeWhile: "split_first c s = takeWhile (\<lambda>x. x \<noteq> c) s"
  unfolding split_first_def
  by (induction s) (auto split: list.splits simp: py_split_nonempty)

lemma conflicts_instance:
  "conflicts pk (Some s) r = (l_panel_key r = pk \<and> l_server_id r = Some s)"
  by (cases "l_server_id r") (auto simp: conflicts_def)

lemma conflicts_null: "\<not> conflicts pk None r"
  by (cases "l_server_id r") (auto simp: conflicts_def)

section \<open>The claims\<close>

text \<open>
  C1 (as amended). The claim reads: an account record is persisted by the create-account
  flow only when the adapter call succeeds, and in every invocation in which the adapter
  returns an error result the account store is left unchanged. \<open>slash_createuser\<close>
  calls \<open>save_created_user\<close> right after \<open>app_api_request\<close> has returned, without
  looking at what it returned. What holds: in every invocation by an admin in which the
  adapter returns an error result \<open>{"error": msg}\<close> (unknown panel, missing key,
  response that is not JSON), the store afterwards is the insert-or-ignore of the record
  (email, chosen password, panel, member identifier, nickname) into the store before; it
  is left unchanged only when an account with that email was stored already.
\<close>

theorem createuser_saves_on_adapter_error:
  assumes "is_admin_user cfg user"
    and "fst (app_api_request cfg w pnl ''/users'' ''POST''
           (Some (createuser_payload email fn ln (choose_password w password)))) =
         Returned (error_json msg)"
  shows "fst (slash_createuser cfg w user pnl email password fn ln ia nick dm d) =
           save_created_user pnl email (choose_password w password) (map_option str_nat dm) nick d \<and>
         (fst (slash_createuser cfg w user pnl email password fn ln ia nick dm d) = d) =
           (email \<in> u_email ` set (users d))"
proof -
  obtain net where a: "app_api_request cfg w pnl ''/users'' ''POST''
      (Some (createuser_payload email fn ln (choose_password w password))) =
      (Returned (error_json msg), net)"
    using assms(2)
    by (cases "app_api_request cfg w pnl ''/users'' ''POST''
      (Some (createuser_payload email fn ln (choose_password w password)))") auto
  have "fst (slash_createuser cfg w user pnl email password fn ln ia nick dm d) =
      save_created_user pnl email (choose_password w password) (map_option str_nat dm) nick d"
    using assms(1) a by (simp add: slash_createuser_def Let_def split: prod.splits)
  then show ?thesis
    by (simp add: save_created_user_unchanged_iff)
qed

text \<open>Witness for C1: admin 1 creates an account on panel \<open>beta\<close>, whose application key
  is empty, so that the adapter returns \<open>missing_application_key\<close>. With the new email
  \<open>c@x.com\<close> the store of two accounts gets a third; with the stored email \<open>a@x.com\<close>
  it stays as it was.\<close>

theorem createuser_saves_on_adapter_error_witness:
  "users (fst (slash_createuser ex_cfg ex_env 1 ''beta'' ''c@x.com'' None ''C'' ''D'' False None
      (Some 5) ex_users_db)) =
     [ex_user_a, ex_user_b,
      \<lparr>u_email = ''c@x.com'', u_password = ''tok'', u_panel_key = ''beta'',
       u_discord_id = Some ''5'', u_nickname = None\<rparr>] \<and>
   fst (slash_createuser ex_cfg ex_env 1 ''beta'' ''a@x.com'' (Some ''pw'') ''A'' ''B'' False None
      None ex_users_db) = ex_users_db"
proof -
  have a: "fst (app_api_request ex_cfg ex_env ''beta'' ''/users'' ''POST''
      (Some (createuser_payload ''c@x.com'' ''C'' ''D'' (choose_password ex_env None)))) =
      Returned (error_json ''missing_application_key'')"
    by (simp add: app_api_request_def ex_cfg_def)
  have b: "fst (app_api_request ex_cfg ex_env ''beta'' ''/users'' ''POST''
      (Some (createuser_payload ''a@x.com'' ''A'' ''B'' (choose_password ex_env (Some ''pw''))))) =
      Returned (error_json ''missing_application_key'')"
    by (simp add: app_api_request_def ex_cfg_def)
  from createuser_saves_on_adapter_error [OF admin1 a, of False None "Some 5" ex_users_db]
    createuser_saves_on_adapter_error [OF admin1 b, of False None None ex_users_db]
  show ?thesis
    by (simp add: save_created_user_def choose_password_def ex_env_def ex_users_db_def
        ex_user_a_def ex_user_b_def str_nat_examples)
qed

text \<open>
  Counterexample to C1 as stated: admin 1 names the panel \<open>gamma\<close>, which is not
  configured. The adapter returns the error \<open>panel_not_found\<close>, and the account
  store, empty before, holds the account afterwards.
\<close>

theorem createuser_error_still_saves:
  "fst (app_api_request ex_cfg ex_env ''gamma'' ''/users'' ''POST''
          (Some (createuser_payload ''a@x.com'' ''A'' ''B'' ''pw''))) =
     Returned (error_json ''panel_not_found'') \<and>
   users (fst (slash_createuser ex_cfg ex_env 1 ''gamma'' ''a@x.com'' (Some ''pw'') ''A'' ''B'' False
            None None empty_db)) =
     [\<lparr>u_email = ''a@x.com'', u_password = ''pw'', u_panel_key = ''gamma'',
       u_discord_id = None, u_nickname = None\<rparr>] \<and>
   users (fst (slash_createuser ex_cfg ex_env 1 ''gamma'' ''a@x.com'' (Some ''pw'') ''A'' ''B'' False
            None None empty_db)) \<noteq> users empty_db"
proof -
  have a: "app_api_request ex_cfg ex_env ''gamma'' ''/users'' ''POST'' body =
      (Returned (error_json ''panel_not_found''), [])" for body
    by (simp add: app_api_request_def ex_cfg_def)
  have "fst (slash_createuser ex_cfg ex_env 1 ''gamma'' ''a@x.com'' (Some ''pw'') ''A'' ''B'' False
            None None empty_db) =
      save_created_user ''gamma'' ''a@x.com'' ''pw'' None None empty_db"
    using admin1
    by (simp add: slash_createuser_def Let_def choose_password_def a split: prod.splits)
  then show ?thesis
    using a by (simp add: save_created_user_def empty_db_def)
qed

text \<open>
  C2 (the code at the failing input). The claim reads: setting a sink for a (scope,
  instance) pair that already holds one, the pair with a null instance included,
  replaces its destination. For a null instance the \<open>ON CONFLICT\<close> clause never fires,
  since \<open>NULL\<close>s are distinct under \<open>UNIQUE\<close>: setting the default sink of \<open>alpha\<close> to 111
  and then to 222 leaves two rows, and the lookup still answers 111.
\<close>

theorem set_log_channel_default_not_replaced:
  "set_log_channel ''alpha'' 222 None (set_log_channel ''alpha'' 111 None empty_db) =
     \<lparr>users = [], servers = [],
      log_channels = [\<lparr>l_panel_key = ''alpha'', l_server_id = None, l_channel_id = 111\<rparr>,
                      \<lparr>l_panel_key = ''alpha'', l_server_id = None, l_channel_id = 222\<rparr>]\<rparr> \<and>
   get_log_channel ''alpha'' None
     (set_log_channel ''alpha'' 222 None (set_log_channel ''alpha'' 111 None empty_db)) = Some 111"
  by (simp add: set_log_channel_def get_log_channel_def conflicts_def empty_db_def)

text \<open>
  C3. First write wins on the email: when an account with the email of \<open>r\<close> is stored,
  then after any sequence \<open>cs\<close> of further \<open>save_created_user\<close> calls (with any emails
  and panels) the stored rows with that email are the ones stored before, and one more
  call with that email, whatever its panel, password, member and nickname, returns the
  store as it is: no row is added, none is changed, nothing is raised.
\<close>

theorem save_created_user_first_write_wins:
  assumes "r \<in> set (users d)"
  shows "filter (\<lambda>x. u_email x = u_email r) (users (run_saves cs d)) =
           filter (\<lambda>x. u_email x = u_email r) (users d) \<and>
         save_created_user pk (u_email r) pw did nick (run_saves cs d) = run_saves cs d"
proof -
  have e: "u_email r \<in> u_email ` set (users d)"
    using assms by simp
  from fold_save_call_keeps [OF e, of cs] show ?thesis
    by (simp add: run_saves_def save_created_user_present)
qed

text \<open>Witness for C3: \<open>a@x.com\<close> is stored with password \<open>first\<close> on \<open>alpha\<close>; a call for
  \<open>c@x.com\<close> and two calls for \<open>a@x.com\<close> on \<open>beta\<close> with other passwords follow.\<close>

theorem save_created_user_first_write_wins_witness:
  "filter (\<lambda>x. u_email x = ''a@x.com'')
     (users (run_saves [(''beta'', ''c@x.com'', ''pw-c'', None, None),
                        (''beta'', ''a@x.com'', ''second'', None, None)] ex_users_db)) = [ex_user_a] \<and>
   save_created_user ''beta'' ''a@x.com'' ''third'' (Some ''5'') None
     (run_saves [(''beta'', ''c@x.com'', ''pw-c'', None, None),
                 (''beta'', ''a@x.com'', ''second'', None, None)] ex_users_db) =
   run_saves [(''beta'', ''c@x.com'', ''pw-c'', None, None),
              (''beta'', ''a@x.com'', ''second'', None, None)] ex_users_db"
proof -
  have h: "ex_user_a \<in> set (users ex_users_db)"
    by (simp add: ex_users_db_def)
  from save_created_user_first_write_wins [OF h,
      of "[(''beta'', ''c@x.com'', ''pw-c'', None, None),
           (''beta'', ''a@x.com'', ''second'', None, None)]" "''beta''" "''third''" "Some ''5''" None]
  show ?thesis
    by (simp add: ex_user_a_def ex_user_b_def ex_users_db_def)
qed

text \<open>
  C4. An admin-only action invoked by an identity outside the admin set (create-account,
  create-server, delete-server, list-servers, set-scope-log-channel,
  set-instance-log-channel): the store is returned as it was, and the only thing the
  handler does is to answer the invoker "Not authorized."; no request goes to the panel.
\<close>

theorem unauthorized_no_effect:
  assumes "\<not> is_admin_user cfg user"
  shows "slash_createuser cfg w user pnl email password fn ln ia nick dm d =
           (d, [SendMessage not_authorized]) \<and>
         slash_createserver cfg w user pnl oe od name egg img mem disk cpu startup descr d =
           (d, [SendMessage not_authorized]) \<and>
         slash_deleteserver cfg w user pnl uuid d = (d, [SendMessage not_authorized]) \<and>
         slash_viewservers cfg w user d = (d, [SendMessage not_authorized]) \<and>
         slash_setlogchannel cfg w user pnl ch d = (d, [SendMessage not_authorized]) \<and>
         slash_setserverlog cfg w user pnl sid ch d = (d, [SendMessage not_authorized]) \<and>
         http_requests [SendMessage not_authorized] = []"
  using assms
  by (simp add: slash_createuser_def slash_createserver_def slash_deleteserver_def
      slash_viewservers_def slash_setlogchannel_def slash_setserverlog_def http_requests_simps)

text \<open>Witness for C4: user 7 is not an admin of the example configuration.\<close>

theorem unauthorized_no_effect_witness:
  "slash_createuser ex_cfg ex_env 7 ''alpha'' ''a@x.com'' None ''A'' ''B'' False None None empty_db =
     (empty_db, [SendMessage not_authorized]) \<and>
   slash_createserver ex_cfg ex_env 7 ''alpha'' (Some ''a@x.com'') None ''srv'' 1 ''img'' 1024 2048 100
     ''run'' None empty_db = (empty_db, [SendMessage not_authorized]) \<and>
   slash_deleteserver ex_cfg ex_env 7 ''alpha'' ''srv-1'' empty_db =
     (empty_db, [SendMessage not_authorized]) \<and>
   slash_viewservers ex_cfg ex_env 7 empty_db = (empty_db, [SendMessage not_authorized]) \<and>
   slash_setlogchannel ex_cfg ex_env 7 ''alpha'' 111 empty_db =
     (empty_db, [SendMessage not_authorized]) \<and>
   slash_setserverlog ex_cfg ex_env 7 ''alpha'' ''srv-1'' 111 empty_db =
     (empty_db, [SendMessage not_authorized]) \<and>
   http_requests [SendMessage not_authorized] = []"
  by (rule unauthorized_no_effect [OF not_admin7])

text \<open>
  C5 (as amended). The claim reads: a lookup with a (scope, instance) key returns the
  instance sink when one is set, else the scope-wide default when one is set, else
  nothing. \<open>get_log_channel\<close> tests \<open>if server_id\<close>, so an empty instance identifier is
  looked up like a null one. What holds: for a non-empty instance identifier the first
  row stored for the pair is returned; when the identifier is null or empty, or no row
  is stored for the pair, the first default row of the scope is returned; and nothing
  when there is no default row either.
\<close>

theorem get_log_channel_prefers_instance:
  "(s \<noteq> [] \<and>
      find (\<lambda>r. l_panel_key r = pk \<and> l_server_id r = Some s) (log_channels d) = Some r \<longrightarrow>
        get_log_channel pk (Some s) d = Some (l_channel_id r)) \<and>
   ((\<not> str_truthy sid \<or>
       (\<forall>x \<in> set (log_channels d). \<not> (l_panel_key x = pk \<and> l_server_id x = sid))) \<and>
      find (\<lambda>r. l_panel_key r = pk \<and> l_server_id r = None) (log_channels d) = Some r \<longrightarrow>
        get_log_channel pk sid d = Some (l_channel_id r)) \<and>
   ((\<not> str_truthy sid \<or>
       (\<forall>x \<in> set (log_channels d). \<not> (l_panel_key x = pk \<and> l_server_id x = sid))) \<and>
      (\<forall>x \<in> set (log_channels d). \<not> (l_panel_key x = pk \<and> l_server_id x = None)) \<longrightarrow>
        get_log_channel pk sid d = None)"
proof -
  have none: "(\<forall>x \<in> set (log_channels d). \<not> (l_panel_key x = pk \<and> l_server_id x = k)) \<Longrightarrow>
      find (\<lambda>r. l_panel_key r = pk \<and> l_server_id r = k) (log_channels d) = None" for k
    by (simp add: find_None_iff)
  show ?thesis
    by (auto simp: get_log_channel_def none)
qed

text \<open>Witness for C5: with an instance sink 111 for (\<open>alpha\<close>, \<open>srv-1\<close>) and a default
  sink 222 for \<open>alpha\<close>, the three cases at \<open>srv-1\<close>, at \<open>srv-2\<close>, and at panel \<open>beta\<close>.\<close>

theorem get_log_channel_prefers_instance_witness:
  "get_log_channel ''alpha'' (Some ''srv-1'') ex_logs_db = Some 111 \<and>
   get_log_channel ''alpha'' (Some ''srv-2'') ex_logs_db = Some 222 \<and>
   get_log_channel ''beta'' (Some ''srv-1'') ex_logs_db = None"
  using get_log_channel_prefers_instance [where s = "''srv-1''" and pk = "''alpha''"
      and d = ex_logs_db and sid = "Some ''srv-2''"
      and r = "\<lparr>l_panel_key = ''alpha'', l_server_id = Some ''srv-1'', l_channel_id = 111\<rparr>"]
    get_log_channel_prefers_instance [where s = "''srv-1''" and pk = "''alpha''"
      and d = ex_logs_db and sid = "Some ''srv-2''"
      and r = "\<lparr>l_panel_key = ''alpha'', l_server_id = None, l_channel_id = 222\<rparr>"]
    get_log_channel_prefers_instance [where s = "''srv-1''" and pk = "''beta''"
      and d = ex_logs_db and sid = "Some ''srv-1''"
      and r = "\<lparr>l_panel_key = ''alpha'', l_server_id = None, l_channel_id = 222\<rparr>"]
  by (simp add: ex_logs_db_def)

text \<open>
  Counterexample to C5 as stated: after \<open>set_log_channel\<close> has stored the sink 111 for
  the pair (\<open>alpha\<close>, empty identifier), a row for that pair is in the store, and the
  lookup with that pair finds nothing.
\<close>

theorem get_log_channel_empty_instance_skipped:
  "log_channels (set_log_channel ''alpha'' 111 (Some []) empty_db) =
     [\<lparr>l_panel_key = ''alpha'', l_server_id = Some [], l_channel_id = 111\<rparr>] \<and>
   get_log_channel ''alpha'' (Some []) (set_log_channel ''alpha'' 111 (Some []) empty_db) = None \<and>
   get_log_channel ''alpha'' (Some []) (set_log_channel ''alpha'' 111 (Some []) empty_db) \<noteq>
     Some 111"
  by (simp add: set_log_channel_def get_log_channel_def conflicts_def empty_db_def)

text \<open>
  C6. Both adapters fail fast. When the panel key is not configured, each returns the
  error \<open>panel_not_found\<close> (the spec's ScopeNotFound) and sends nothing. When the panel
  is configured and the key of the surface is absent or empty, \<open>app_api_request\<close>
  returns \<open>missing_application_key\<close> and \<open>client_api_request\<close> returns
  \<open>missing_client_key\<close> (the spec's MissingCredential), and nothing is sent: the list of
  effects, which would hold the request, is empty. Both tests come before the URL of
  the entry is read, so they are returned also for an entry without one.
\<close>

theorem api_request_fails_fast:
  "(PANELS cfg panel_key = None \<longrightarrow>
      app_api_request cfg w panel_key path meth body =
        (Returned (error_json ''panel_not_found''), []) \<and>
      client_api_request cfg w panel_key path meth body =
        (Returned (error_json ''panel_not_found''), [])) \<and>
   (PANELS cfg panel_key = Some pn \<and> \<not> str_truthy (p_application_api_key pn) \<longrightarrow>
      app_api_request cfg w panel_key path meth body =
        (Returned (error_json ''missing_application_key''), [])) \<and>
   (PANELS cfg panel_key = Some pn \<and> \<not> str_truthy (p_api_key pn) \<longrightarrow>
      client_api_request cfg w panel_key path meth body =
        (Returned (error_json ''missing_client_key''), []))"
  by (cases "p_application_api_key pn"; cases "p_api_key pn")
     (simp_all add: app_api_request_def client_api_request_def)

text \<open>Witness for C6: \<open>gamma\<close> is not configured; \<open>beta\<close> has an empty application key
  and no client key.\<close>

theorem api_request_fails_fast_witness:
  "app_api_request ex_cfg ex_env ''gamma'' ''/users'' ''POST'' None =
     (Returned (error_json ''panel_not_found''), []) \<and>
   client_api_request ex_cfg ex_env ''gamma'' ''/users'' ''POST'' None =
     (Returned (error_json ''panel_not_found''), []) \<and>
   app_api_request ex_cfg ex_env ''beta'' ''/users'' ''POST'' None =
     (Returned (error_json ''missing_application_key''), []) \<and>
   client_api_request ex_cfg ex_env ''beta'' ''/users'' ''POST'' None =
     (Returned (error_json ''missing_client_key''), [])"
  using api_request_fails_fast [where cfg = ex_cfg and panel_key = "''gamma''" and w = ex_env
      and path = "''/users''" and meth = "''POST''" and body = None]
    api_request_fails_fast [where cfg = ex_cfg and panel_key = "''beta''" and w = ex_env
      and path = "''/users''" and meth = "''POST''" and body = None
      and pn = "\<lparr>p_url = Some ''https://beta.example'', p_api_key = None,
                 p_application_api_key = Some []\<rparr>"]
  by (simp add: ex_cfg_def)




text \<open>
  C8. A share-add session in which no message of the same author in the same channel
  arrives before the timeout: the handler prompts, answers "Timed out. Try again.", and
  does nothing else; in particular no invite request is sent to the panel and the
  continuation (strip the reply, invite, log) does not run.
\<close>

theorem add_user_times_out:
  assumes "\<forall>m \<in> set (inbox w).
     m_after m < DEFAULT_TIMEOUT \<longrightarrow> \<not> (m_author m = user \<and> m_channel m = channel)"
  shows "add_user cfg w d panel_key server_id user channel =
           [SendMessage [T ''Reply with the email to invite (60s).''], Followup timed_out] \<and>
         http_requests (add_user cfg w d panel_key server_id user channel) = []"
proof -
  have "wait_for w (\<lambda>m. m_author m = user \<and> m_channel m = channel) DEFAULT_TIMEOUT = None"
    using assms by (auto simp: wait_for_def find_None_iff)
  then show ?thesis
    by (simp add: add_user_def http_requests_simps)
qed

text \<open>Witness for C8: user 1 waits in channel 10; user 2 writes there after 5 seconds
  and user 1 after 61.\<close>

theorem add_user_times_out_witness:
  "add_user ex_cfg ex_late_env empty_db ''alpha'' ''srv-1'' 1 10 =
     [SendMessage [T ''Reply with the email to invite (60s).''], Followup timed_out] \<and>
   http_requests (add_user ex_cfg ex_late_env empty_db ''alpha'' ''srv-1'' 1 10) = []"
proof -
  have h: "\<forall>m \<in> set (inbox ex_late_env).
     m_after m < DEFAULT_TIMEOUT \<longrightarrow> \<not> (m_author m = 1 \<and> m_channel m = 10)"
    by (simp add: ex_late_env_def DEFAULT_TIMEOUT_def)
  show ?thesis
    by (rule add_user_times_out [OF h])
qed

text \<open>
  C9. The username of the create-account request is the part of the email before the
  first \<open>@\<close> (the whole email when it has none): \<open>email.split("@")[0]\<close> is that prefix,
  every request \<open>slash_createuser\<close> sends carries the payload built from it, and an admin
  invoking it on a panel with an application key sends exactly one request when the
  panel entry has a URL, and none when it has not.
\<close>

theorem createuser_username:
  "split_first CHR ''@'' email = takeWhile (\<lambda>c. c \<noteq> CHR ''@'') email \<and>
   (\<forall>rq \<in> set (http_requests
        (snd (slash_createuser cfg w user pnl email password fn ln ia nick dm d))).
      r_json rq = Some (createuser_payload email fn ln (choose_password w password)) \<and>
      (\<exists>kvs. r_json rq = Some (JObj kvs) \<and>
         map_of kvs ''username'' = Some (JStr (takeWhile (\<lambda>c. c \<noteq> CHR ''@'') email)))) \<and>
   (is_admin_user cfg user \<and> PANELS cfg pnl = Some pn \<and> str_truthy (p_application_api_key pn) \<longrightarrow>
      length (http_requests
        (snd (slash_createuser cfg w user pnl email password fn ln ia nick dm d))) =
      (case p_url pn of None \<Rightarrow> 0 | Some u \<Rightarrow> 1))"
proof -
  have body: "r_json rq = Some (createuser_payload email fn ln (choose_password w password))"
    if "rq \<in> set (http_requests
        (snd (slash_createuser cfg w user pnl email password fn ln ia nick dm d)))" for rq
    using that
    by (auto simp: http_requests_createuser split: if_splits
        dest: http_requests_app_api_request)
  have sent: "length (http_requests
        (snd (slash_createuser cfg w user pnl email password fn ln ia nick dm d))) =
      (case p_url pn of None \<Rightarrow> 0 | Some u \<Rightarrow> 1)"
    if "is_admin_user cfg user" "PANELS cfg pnl = Some pn" "str_truthy (p_application_api_key pn)"
    using that
    by (cases "p_application_api_key pn"; cases "p_url pn")
       (simp_all add: http_requests_createuser app_api_request_def http_requests_simps Let_def)
  show ?thesis
    using body sent
    by (auto simp: split_first_takeWhile createuser_payload_def)
qed

text \<open>Witness for C9: admin 1 creates \<open>bob@x.com\<close> on \<open>alpha\<close>; one request is sent and
  its username is \<open>bob\<close>.\<close>

theorem createuser_username_witness:
  "split_first CHR ''@'' ''bob@x.com'' = ''bob'' \<and>
   length (http_requests (snd (slash_createuser ex_cfg ex_env 1 ''alpha'' ''bob@x.com'' (Some ''pw'')
     ''Bob'' ''B'' False None None empty_db))) = 1"
  using createuser_username [where email = "''bob@x.com''" and cfg = ex_cfg and w = ex_env
      and user = 1 and pnl = "''alpha''" and password = "Some ''pw''" and fn = "''Bob''"
      and ln = "''B''" and ia = False and nick = None and dm = None and d = empty_db
      and pn = "\<lparr>p_url = Some ''https://panel.example/'', p_api_key = Some ''ck'',
                 p_application_api_key = Some ''ak''\<rparr>"]
    admin1
  by (simp add: ex_cfg_def)



section \<open>Beyond the claims: the upsert on a specific instance\<close>

text \<open>
  For a specific instance identifier \<open>set_log_channel\<close> is the upsert the sink mapping
  asks for: when a row is stored for (panel, instance), the destination of the rows of
  that pair is rewritten and every other row, the accounts and the servers are as they
  were; the lookup for a non-empty identifier then gives the new destination.
\<close>

lemma find_after_upsert:
  "x \<in> set rs \<Longrightarrow> l_panel_key x = pk \<Longrightarrow> l_server_id x = Some s \<Longrightarrow>
   map_option l_channel_id
     (find (\<lambda>r. l_panel_key r = pk \<and> l_server_id r = Some s)
        (map (\<lambda>r. if l_panel_key r = pk \<and> l_server_id r = Some s then r\<lparr>l_channel_id := c\<rparr> else r) rs))
     = Some c"
proof (induction rs)
  case Nil
  then show ?case by simp
next
  case (Cons a rs)
  show ?case
  proof (cases "l_panel_key a = pk \<and> l_server_id a = Some s")
    case True
    then show ?thesis by simp
  next
    case False
    with Cons.prems have "x \<in> set rs" by auto
    from Cons.IH [OF this Cons.prems(2,3)] False show ?thesis by auto
  qed
qed

text \<open>The upsert on a stored (panel, instance) pair.\<close>

theorem set_log_channel_instance_upsert:
  assumes "x \<in> set (log_channels d)" and "l_panel_key x = pk" and "l_server_id x = Some s"
  shows "log_channels (set_log_channel pk c (Some s) d) =
           map (\<lambda>r. if l_panel_key r = pk \<and> l_server_id r = Some s then r\<lparr>l_channel_id := c\<rparr> else r)
             (log_channels d) \<and>
         users (set_log_channel pk c (Some s) d) = users d \<and>
         servers (set_log_channel pk c (Some s) d) = servers d \<and>
         (s \<noteq> [] \<longrightarrow> get_log_channel pk (Some s) (set_log_channel pk c (Some s) d) = Some c)"
proof -
  have ex: "list_ex (conflicts pk (Some s)) (log_channels d)"
    using assms by (auto simp: list_ex_iff conflicts_instance)
  then have rows: "log_channels (set_log_channel pk c (Some s) d) =
      map (\<lambda>r. if l_panel_key r = pk \<and> l_server_id r = Some s then r\<lparr>l_channel_id := c\<rparr> else r)
        (log_channels d)"
    by (simp add: set_log_channel_def conflicts_instance)
  have frame: "users (set_log_channel pk c (Some s) d) = users d"
    "servers (set_log_channel pk c (Some s) d) = servers d"
    using ex by (simp_all add: set_log_channel_def)
  have "map_option l_channel_id
     (find (\<lambda>r. l_panel_key r = pk \<and> l_server_id r = Some s)
        (log_channels (set_log_channel pk c (Some s) d))) = Some c"
    unfolding rows by (rule find_after_upsert [OF assms])
  then obtain y where y: "find (\<lambda>r. l_panel_key r = pk \<and> l_server_id r = Some s)
        (log_channels (set_log_channel pk c (Some s) d)) = Some y" "l_channel_id y = c"
    by (cases "find (\<lambda>r. l_panel_key r = pk \<and> l_server_id r = Some s)
        (log_channels (set_log_channel pk c (Some s) d))") auto
  have get: "s \<noteq> [] \<longrightarrow> get_log_channel pk (Some s) (set_log_channel pk c (Some s) d) = Some c"
    unfolding get_log_channel_def using y by simp
  from rows frame get show ?thesis
    by blast
qed

text \<open>The instance sink of (\<open>alpha\<close>, \<open>srv-1\<close>) is moved from 111 to 333; the default
  sink 222 stays.\<close>

theorem set_log_channel_instance_upsert_witness:
  "log_channels (set_log_channel ''alpha'' 333 (Some ''srv-1'') ex_logs_db) =
     [\<lparr>l_panel_key = ''alpha'', l_server_id = Some ''srv-1'', l_channel_id = 333\<rparr>,
      \<lparr>l_panel_key = ''alpha'', l_server_id = None, l_channel_id = 222\<rparr>] \<and>
   get_log_channel ''alpha'' (Some ''srv-1'')
     (set_log_channel ''alpha'' 333 (Some ''srv-1'') ex_logs_db) = Some 333"
proof -
  have h: "\<lparr>l_panel_key = ''alpha'', l_server_id = Some ''srv-1'', l_channel_id = 111\<rparr>
      \<in> set (log_channels ex_logs_db)"
    by (simp add: ex_logs_db_def)
  have k: "l_panel_key \<lparr>l_panel_key = ''alpha'', l_server_id = Some ''srv-1'', l_channel_id = 111\<rparr>
      = ''alpha''"
    "l_server_id \<lparr>l_panel_key = ''alpha'', l_server_id = Some ''srv-1'', l_channel_id = 111\<rparr>
      = Some ''srv-1''"
    by simp_all
  from set_log_channel_instance_upsert [OF h k, of 333]
  show ?thesis
    by (simp add: ex_logs_db_def)
qed

section \<open>Beyond the claims: an adapter call that raises\<close>

text \<open>
  When the adapter call of \<open>slash_createuser\<close> ends with an exception (the panel cannot
  be reached, or the panel entry has no URL), the handler ends with it on the line of
  the call: the store is as it was, and after the deferral and the request, if one was
  sent, nothing else is done; no direct message, no log entry, no answer.
\<close>

theorem createuser_adapter_raises:
  assumes "is_admin_user cfg user"
    and "fst (app_api_request cfg w pnl ''/users'' ''POST''
           (Some (createuser_payload email fn ln (choose_password w password)))) = Raised e"
  shows "slash_createuser cfg w user pnl email password fn ln ia nick dm d =
           (d, [Defer] @
               snd (app_api_request cfg w pnl ''/users'' ''POST''
                      (Some (createuser_payload email fn ln (choose_password w password)))) @
               [Raise e])"
proof -
  obtain net where a: "app_api_request cfg w pnl ''/users'' ''POST''
      (Some (createuser_payload email fn ln (choose_password w password))) = (Raised e, net)"
    using assms(2)
    by (cases "app_api_request cfg w pnl ''/users'' ''POST''
      (Some (createuser_payload email fn ln (choose_password w password)))") auto
  show ?thesis
    using assms(1) a by (simp add: slash_createuser_def Let_def)
qed

text \<open>Admin 1 creates \<open>c@x.com\<close> on \<open>alpha\<close> while the panel cannot be reached: the store
  of two accounts stays as it was.\<close>

theorem createuser_adapter_raises_witness:
  "fst (slash_createuser ex_cfg ex_down_env 1 ''alpha'' ''c@x.com'' (Some ''pw'') ''C'' ''D'' False
     None None ex_users_db) = ex_users_db \<and>
   last (snd (slash_createuser ex_cfg ex_down_env 1 ''alpha'' ''c@x.com'' (Some ''pw'') ''C'' ''D''
     False None None ex_users_db)) = Raise ''aiohttp.ClientError''"
proof -
  have a: "fst (app_api_request ex_cfg ex_down_env ''alpha'' ''/users'' ''POST''
      (Some (createuser_payload ''c@x.com'' ''C'' ''D'' (choose_password ex_down_env (Some ''pw''))))) =
      Raised ''aiohttp.ClientError''"
    by (simp add: app_api_request_def ex_cfg_def ex_down_env_def ex_env_def normalise_def Let_def)
  from createuser_adapter_raises [OF admin1 a, of False None None ex_users_db]
  show ?thesis
    by simp
qed

end
